theory Spec2Isabelle
  imports Complex_Main "HOL-Library.AList"
begin

section \<open>Values of the Python program\<close>

text \<open>
  The exceptions that the modelled paths of \<^verbatim>\<open>run_analysis.py\<close> can meet. The first
  three are produced by the environment (opening and parsing a file, an HTTP call, the
  bounded wait on the child process); \<open>AttributeError\<close> and \<open>TypeError\<close> are raised by
  the script's own expressions (\<^verbatim>\<open>data.get\<close> on a value that is not a dict,
  \<^verbatim>\<open>len\<close> of a value without a length, item assignment on a value that is not a dict).
\<close>

datatype exc = JSONDecodeError | OSError | TransportError | TimeoutExpired
  | AttributeError | TypeError

text \<open>
  What \<^verbatim>\<open>json.load\<close> returns. A dict is an association list read with \<open>map_of\<close>;
  a Python \<^verbatim>\<open>str\<close> is the list of bytes of its UTF-8 encoding, which is what a file
  opened with \<^verbatim>\<open>encoding='utf-8'\<close> stores for it (so every string here can be encoded,
  and the length of a string is counted in bytes, which is zero exactly when the number
  of its characters is); a float is the rational it denotes (no function below computes
  with numbers beyond comparing with zero).
\<close>

datatype json = JNull | JBool bool | JInt int | JFloat rat | JStr string
  | JArr "json list" | JObj "(string \<times> json) list"

text \<open>\<^verbatim>\<open>data.get(key, default)\<close>: only a dict has the method.\<close>

fun py_get :: "json \<Rightarrow> string \<Rightarrow> json \<Rightarrow> exc + json" where
  "py_get (JObj kvs) k d = Inr (case map_of kvs k of Some v \<Rightarrow> v | None \<Rightarrow> d)"
| "py_get _ k d = Inl AttributeError"

text \<open>Truth value of an object in a condition.\<close>

fun truthy :: "json \<Rightarrow> bool" where
  "truthy JNull = False"
| "truthy (JBool b) = b"
| "truthy (JInt i) = (i \<noteq> 0)"
| "truthy (JFloat r) = (r \<noteq> 0)"
| "truthy (JStr s) = (s \<noteq> [])"
| "truthy (JArr xs) = (xs \<noteq> [])"
| "truthy (JObj kvs) = (kvs \<noteq> [])"

fun isinstance_str :: "json \<Rightarrow> bool" where
  "isinstance_str (JStr s) = True"
| "isinstance_str _ = False"

text \<open>\<^verbatim>\<open>len(x)\<close>: strings, lists and dicts have a length, anything else raises.\<close>

fun py_len :: "json \<Rightarrow> exc + nat" where
  "py_len (JStr s) = Inr (length s)"
| "py_len (JArr xs) = Inr (length xs)"
| "py_len (JObj kvs) = Inr (length kvs)"
| "py_len _ = Inl TypeError"

text \<open>The text of a string object, as \<^verbatim>\<open>f.write\<close> receives it.\<close>

fun str_text :: "json \<Rightarrow> string" where
  "str_text (JStr s) = s"
| "str_text _ = []"

section \<open>Directories\<close>

text \<open>
  A directory is the list of its entries, in the order in which it is listed, each a
  file name with what the file holds; the names of a directory are distinct, and two
  names are the same file when they are equal character by character. Entries are
  regular files, and reading, writing and deleting an existing regular file succeeds.
\<close>

type_synonym 'a directory = "(string \<times> 'a) list"

definition ends_with :: "string \<Rightarrow> string \<Rightarrow> bool" where
  "ends_with suf name =
     (length suf \<le> length name \<and> drop (length name - length suf) name = suf)"

text \<open>\<^verbatim>\<open>dir.glob("*" + suf)\<close>: the entries whose name ends with \<open>suf\<close>.\<close>

definition glob_star :: "string \<Rightarrow> 'a directory \<Rightarrow> 'a directory" where
  "glob_star suf d = filter (\<lambda>entry. ends_with suf (fst entry)) d"

text \<open>\<^verbatim>\<open>path.unlink()\<close> and \<^verbatim>\<open>open(path, 'w').write(text)\<close> on a directory.\<close>

definition unlink :: "string \<Rightarrow> 'a directory \<Rightarrow> 'a directory" where
  "unlink name d = AList.delete name d"

definition write_file :: "string \<Rightarrow> 'a \<Rightarrow> 'a directory \<Rightarrow> 'a directory" where
  "write_file name text d = AList.update name text d"

text \<open>
  What a file opened with \<^verbatim>\<open>open(path, 'w', encoding='utf-8')\<close> receives for a string:
  the file is in text mode with the default newline handling, which writes each line
  feed as the line separator of the platform, carriage return and line feed on Windows
  and the line feed itself elsewhere.
\<close>

definition text_mode :: "bool \<Rightarrow> string \<Rightarrow> string" where
  "text_mode windows text =
     (if windows
      then concat (map (\<lambda>c. if c = CHR 0x0A then [CHR 0x0D, CHR 0x0A] else [c]) text)
      else text)"

text \<open>
  \<^verbatim>\<open>Path.stem\<close>: the name without its last suffix, where a suffix starts at the last
  dot if that dot is neither the first nor the last character of the name.
\<close>

fun rfind_dot :: "string \<Rightarrow> nat option" where
  "rfind_dot [] = None"
| "rfind_dot (c # cs) =
     (case rfind_dot cs of
        Some i \<Rightarrow> Some (Suc i)
      | None \<Rightarrow> if c = CHR ''.'' then Some 0 else None)"

definition stem :: "string \<Rightarrow> string" where
  "stem name =
     (case rfind_dot name of
        None \<Rightarrow> name
      | Some i \<Rightarrow> if 0 < i \<and> i < length name - 1 then take i name else name)"

section \<open>Extraction: \<^verbatim>\<open>extract_js_from_json_files\<close>\<close>

text \<open>
  A file of \<^verbatim>\<open>JS_FILES_JSON_DIR\<close> is modelled by what opening it and \<^verbatim>\<open>json.load\<close>
  give: the parsed value, or the exception raised.
\<close>

type_synonym json_file = "exc + json"

record extract_state =
  extracted_dir :: "string directory"
  extracted_count :: nat
  failed_count :: nat

text \<open>
  The lines the script prints, by kind, with the values they show (\<open>Extracted\<close> with
  the file name and the content whose length the line shows).
\<close>

datatype message =
    Banner_step1 | Starting_server | Server_ready | Waiting_for_server nat nat
  | Error_server_failed | Starting_mapping json | Mapping_complete | Ui_endpoints nat
  | Server_endpoints nat | Js_files_captured json | Output_directory json
  | Error_mapping_failed int | Response_text string | Error_exception exc | Traceback
  | Stopping_server
  | Banner_step2 | Found_json_files nat | Extracted string string
  | Skipped string json json | Error_processing string exc | Extraction_complete nat nat
  | Banner_step3 | Error_extracted_dir_not_found | Error_no_js_files | Found_js_files nat
  | Running "string list" | Analysis_complete | Report_saved string
  | Error_analysis_failed int
  | Banner_analysis_only | Error_js_dir_not_found | Error_no_js_files_in
  | Banner_main | Error_json_dir_not_found | Pipeline_complete | No_js_extracted
  | Error_capture_failed
  | Banner_step4 | Warning_merge_issues string | Merged_output_created | Total_calls_found json
  | Unique_calls json | From_noizz25 json | From_static_analysis json
  | Warning_merged_not_found

text \<open>
  The body of the \<^verbatim>\<open>try\<close> block for one file (lines 52 to 72): \<open>Inl\<close> is an
  exception, raised before anything was written or counted. The first argument says
  whether the platform is Windows (\<^verbatim>\<open>sys.platform == 'win32'\<close>).
\<close>

definition process_try ::
  "bool \<Rightarrow> string \<times> json_file \<Rightarrow> extract_state \<Rightarrow> exc + (extract_state \<times> message)" where
  "process_try windows jf st =
     (case snd jf of
        Inl e \<Rightarrow> Inl e
      | Inr data \<Rightarrow>
          (case py_get data ''content'' JNull of
             Inl e \<Rightarrow> Inl e
           | Inr content \<Rightarrow>
               (case py_get data ''url'' (JStr []) of
                  Inl e \<Rightarrow> Inl e
                | Inr url \<Rightarrow>
                    if truthy content \<and> isinstance_str content \<and> 0 < length (str_text content)
                    then
                      let js_filename = stem (fst jf) @ ''.js'' in
                      Inr (st\<lparr>extracted_dir :=
                                 write_file js_filename (text_mode windows (str_text content))
                                   (extracted_dir st),
                               extracted_count := extracted_count st + 1\<rparr>,
                           Extracted js_filename (str_text content))
                    else
                      (case py_get data ''error'' (JStr ''No content'') of
                         Inl e \<Rightarrow> Inl e
                       | Inr error \<Rightarrow>
                           (case py_get data ''status'' (JStr ''unknown'') of
                              Inl e \<Rightarrow> Inl e
                            | Inr status \<Rightarrow>
                                Inr (st\<lparr>failed_count := failed_count st + 1\<rparr>,
                                     Skipped (fst jf) status error))))))"

text \<open>One iteration of the loop: the \<^verbatim>\<open>try\<close> block with its handler.\<close>

definition process_json_file ::
  "bool \<Rightarrow> string \<times> json_file \<Rightarrow> extract_state \<times> message list
     \<Rightarrow> extract_state \<times> message list" where
  "process_json_file windows jf acc =
     (case process_try windows jf (fst acc) of
        Inr (st', m) \<Rightarrow> (st', snd acc @ [m])
      | Inl e \<Rightarrow> ((fst acc)\<lparr>failed_count := failed_count (fst acc) + 1\<rparr>,
                  snd acc @ [Error_processing (fst jf) e]))"

definition extract_loop ::
  "bool \<Rightarrow> json_file directory \<Rightarrow> extract_state \<times> message list
     \<Rightarrow> extract_state \<times> message list" where
  "extract_loop windows json_files acc = fold (process_json_file windows) json_files acc"

text \<open>\<^verbatim>\<open>for f in EXTRACTED_JS_DIR.glob("*.js"): f.unlink()\<close>\<close>

definition clear_js :: "string directory \<Rightarrow> string directory" where
  "clear_js d = fold (\<lambda>f d'. unlink (fst f) d') (glob_star ''.js'' d) d"

text \<open>
  The whole function, on a platform that is Windows or not. The next argument is
  \<^verbatim>\<open>JS_FILES_JSON_DIR\<close> and the last \<^verbatim>\<open>EXTRACTED_JS_DIR\<close>, each \<open>None\<close> when the
  directory does not exist (\<^verbatim>\<open>mkdir\<close> with \<^verbatim>\<open>exist_ok\<close> creates the latter, and
  \<^verbatim>\<open>glob\<close> on a missing directory lists nothing). The result is the final state of the loop, whose \<open>extracted_count\<close>
  the Python returns, and the lines printed.
\<close>

definition mkdir_exist_ok :: "'a directory option \<Rightarrow> 'a directory" where
  "mkdir_exist_ok d = (case d of None \<Rightarrow> [] | Some entries \<Rightarrow> entries)"

definition list_dir :: "'a directory option \<Rightarrow> 'a directory" where
  "list_dir d = (case d of None \<Rightarrow> [] | Some entries \<Rightarrow> entries)"

definition extract_js_from_json_files ::
  "bool \<Rightarrow> json_file directory option \<Rightarrow> string directory option
     \<Rightarrow> extract_state \<times> message list" where
  "extract_js_from_json_files windows js_files_json_dir extracted_js_dir =
     (let cleared = clear_js (mkdir_exist_ok extracted_js_dir);
          json_files = glob_star ''.json'' (list_dir js_files_json_dir);
          (st, out) = extract_loop windows json_files
             (\<lparr>extracted_dir = cleared, extracted_count = 0, failed_count = 0\<rparr>,
              [Banner_step2, Found_json_files (length json_files)])
      in (st, out @ [Extraction_complete (extracted_count st) (failed_count st)]))"

section \<open>Effects\<close>

text \<open>
  What a run does to the world outside the extraction directory, in order: a line
  printed, the capture server started, an HTTP request sent, a sleep, a termination
  request to the server process (\<^verbatim>\<open>server_process.terminate()\<close>, or \<^verbatim>\<open>taskkill\<close>
  on Windows), the bounded wait for it, a \<^verbatim>\<open>node\<close> subprocess run to its end.
  Printing a line, starting the server and starting \<^verbatim>\<open>node\<close> succeed.
\<close>

datatype event =
    Print message
  | Popen_server
  | Http_get_health
  | Sleep nat
  | Http_post_map json
  | Terminate
  | Taskkill
  | Wait nat
  | Run_subprocess "string list"

text \<open>
  A computation that prints and acts, and then returns or raises. \<open>then_do\<close> runs the
  second part only if the first returned, and keeps the effects of both; \<open>pure\<close> has
  no effect; \<open>emit\<close> only has effects.
\<close>

type_synonym 'a io = "(exc + 'a) \<times> event list"

definition then_do :: "'a io \<Rightarrow> ('a \<Rightarrow> 'b io) \<Rightarrow> 'b io" where
  "then_do m f =
     (case fst m of
        Inl e \<Rightarrow> (Inl e, snd m)
      | Inr a \<Rightarrow> (fst (f a), snd m @ snd (f a)))"

definition pure :: "exc + 'a \<Rightarrow> 'a io" where
  "pure r = (r, [])"

definition emit :: "event list \<Rightarrow> unit io" where
  "emit evs = (Inr (), evs)"

text \<open>A part that cannot raise, with its value and effects.\<close>

definition returning :: "'a \<times> event list \<Rightarrow> 'a io" where
  "returning p = (Inr (fst p), snd p)"

section \<open>The environment\<close>

text \<open>
  The answers of everything the script talks to. \<open>health i\<close> is attempt \<open>i\<close> of
  \<^verbatim>\<open>httpx.get(".../health")\<close>: the status code or an exception. \<open>load_config p\<close> is
  opening \<open>p\<close> and \<^verbatim>\<open>json.load\<close>. \<open>post_map payload\<close> is the \<^verbatim>\<open>httpx.post\<close> to
  \<^verbatim>\<open>/map\<close>. \<open>wait_expires\<close> says that \<^verbatim>\<open>server_process.wait(timeout=5)\<close> raises.
  \<open>js_files_json_dir\<close> is \<^verbatim>\<open>JS_FILES_JSON_DIR\<close> and \<open>merged_file\<close> is
  \<^verbatim>\<open>outputs/api_calls_merged.json\<close>, each as the script finds it when it looks, \<open>None\<close>
  when absent. \<open>path_lookup\<close> resolves a \<^verbatim>\<open>--js-dir\<close> argument. \<open>analyzer_exit cmd\<close>
  and \<open>merge_exit\<close> are the return codes of the two \<^verbatim>\<open>node\<close> subprocesses.
\<close>

record response =
  status_code :: int
  response_text :: string
  response_json :: "exc + json"

datatype node = Regular_file | Dir "string directory"

record world =
  win32 :: bool
  health :: "nat \<Rightarrow> exc + int"
  load_config :: "string \<Rightarrow> exc + json"
  post_map :: "json \<Rightarrow> exc + response"
  wait_expires :: bool
  js_files_json_dir :: "json_file directory option"
  path_lookup :: "string \<Rightarrow> node option"
  absolute :: "string \<Rightarrow> string"
  analyzer_exit :: "string list \<Rightarrow> int"
  merge_exit :: int
  merge_stderr :: string
  merged_file :: "json_file option"

text \<open>The module's paths, as strings relative to \<^verbatim>\<open>BASE_DIR\<close>.\<close>

definition NOIZZ_CONFIG :: string where
  "NOIZZ_CONFIG = ''Noizz2025/config.json''"

definition EXTRACTED_JS_DIR :: string where
  "EXTRACTED_JS_DIR = ''Noizz2025/mapping_output/extracted_js''"

section \<open>Capture: \<^verbatim>\<open>run_noizz2025\<close>\<close>

definition max_wait :: nat where
  "max_wait = 30"

text \<open>
  The polling loop (lines 104 to 114), from attempt \<open>i\<close> with \<open>n\<close> attempts left. The
  bare \<^verbatim>\<open>except\<close> swallows every exception of the request.
\<close>

fun wait_for_server :: "world \<Rightarrow> nat \<Rightarrow> nat \<Rightarrow> bool \<times> event list" where
  "wait_for_server w i 0 = (False, [])"
| "wait_for_server w i (Suc n) =
     (if health w i = Inr 200
      then (True, [Http_get_health, Print Server_ready])
      else (fst (wait_for_server w (Suc i) n),
            [Http_get_health, Sleep 1, Print (Waiting_for_server (i + 1) max_wait)]
              @ snd (wait_for_server w (Suc i) n)))"

text \<open>\<^verbatim>\<open>config[key] = value\<close>: only a dict among the JSON values takes a string key.\<close>

fun py_setitem :: "json \<Rightarrow> string \<Rightarrow> json \<Rightarrow> exc + json" where
  "py_setitem (JObj kvs) k v = Inr (JObj (AList.update k v kvs))"
| "py_setitem _ k v = Inl TypeError"

text \<open>\<^verbatim>\<open>x or default\<close> and \<^verbatim>\<open>if x:\<close> on an optional string argument.\<close>

definition given :: "string option \<Rightarrow> bool" where
  "given a = (case a of None \<Rightarrow> False | Some s \<Rightarrow> s \<noteq> [])"

text \<open>Lines 123 to 129: the configuration sent to the capture service.\<close>

definition prepare_config :: "string option \<Rightarrow> string option \<Rightarrow> world \<Rightarrow> exc + json" where
  "prepare_config config_file start_url w =
     (case load_config w (if given config_file then the config_file else NOIZZ_CONFIG) of
        Inl e \<Rightarrow> Inl e
      | Inr config \<Rightarrow>
          if given start_url then py_setitem config ''start_url'' (JStr (the start_url))
          else Inr config)"

text \<open>Lines 141 to 147: the report of a mapping that answered 200.\<close>

definition report_mapping :: "response \<Rightarrow> bool io" where
  "report_mapping r =
     then_do (pure (response_json r)) (\<lambda>result.
     then_do (emit [Print Mapping_complete]) (\<lambda>_.
     then_do (pure (py_get result ''ui_endpoints'' (JArr []))) (\<lambda>ui.
     then_do (pure (py_len ui)) (\<lambda>n_ui.
     then_do (emit [Print (Ui_endpoints n_ui)]) (\<lambda>_.
     then_do (pure (py_get result ''server_endpoints'' (JArr []))) (\<lambda>srv.
     then_do (pure (py_len srv)) (\<lambda>n_srv.
     then_do (emit [Print (Server_endpoints n_srv)]) (\<lambda>_.
     then_do (pure (py_get result ''js_files_count'' (JInt 0))) (\<lambda>cnt.
     then_do (emit [Print (Js_files_captured cnt)]) (\<lambda>_.
     then_do (pure (py_get result ''output_directory'' JNull)) (\<lambda>dir.
     then_do (emit [Print (Output_directory dir)]) (\<lambda>_.
     pure (Inr True)))))))))))))"

text \<open>The body of the \<^verbatim>\<open>try\<close> block (lines 122 to 151).\<close>

definition mapping_try :: "string option \<Rightarrow> string option \<Rightarrow> world \<Rightarrow> bool io" where
  "mapping_try config_file start_url w =
     then_do (pure (prepare_config config_file start_url w)) (\<lambda>config.
     then_do (pure (py_get config ''start_url'' JNull)) (\<lambda>shown.
     then_do (emit [Print (Starting_mapping shown),
                    Http_post_map (JObj [(''config'', config)])]) (\<lambda>_.
     then_do (pure (post_map w (JObj [(''config'', config)]))) (\<lambda>r.
       if status_code r = 200 then report_mapping r
       else then_do (emit [Print (Error_mapping_failed (status_code r)),
                           Print (Response_text (response_text r))]) (\<lambda>_.
            pure (Inr False))))))"

text \<open>The handler \<^verbatim>\<open>except Exception\<close> (lines 153 to 157) around the body.\<close>

definition mapping_handled :: "string option \<Rightarrow> string option \<Rightarrow> world \<Rightarrow> bool \<times> event list" where
  "mapping_handled config_file start_url w =
     (case fst (mapping_try config_file start_url w) of
        Inl e \<Rightarrow> (False, snd (mapping_try config_file start_url w)
                      @ [Print (Error_exception e), Print Traceback])
      | Inr b \<Rightarrow> (b, snd (mapping_try config_file start_url w)))"

text \<open>
  The \<^verbatim>\<open>finally\<close> block (lines 158 to 166): an exception of the wait replaces the
  value that was about to be returned.
\<close>

definition stop_server :: "world \<Rightarrow> unit io" where
  "stop_server w =
     then_do (emit [Print Stopping_server, if win32 w then Taskkill else Terminate, Wait 5]) (\<lambda>_.
     pure (if wait_expires w then Inl TimeoutExpired else Inr ()))"

definition run_noizz2025 :: "string option \<Rightarrow> string option \<Rightarrow> world \<Rightarrow> bool io" where
  "run_noizz2025 config_file start_url w =
     then_do (emit [Print Banner_step1, Print Starting_server, Popen_server]) (\<lambda>_.
     then_do (returning (wait_for_server w 0 max_wait)) (\<lambda>server_ready.
       if \<not> server_ready
       then then_do (emit [Print Error_server_failed, Terminate]) (\<lambda>_. pure (Inr False))
       else
         then_do (returning (mapping_handled config_file start_url w)) (\<lambda>returned.
         then_do (stop_server w) (\<lambda>_.
         pure (Inr returned)))))"

section \<open>Static analysis: \<^verbatim>\<open>run_static_analysis\<close> and \<^verbatim>\<open>run_static_analysis_only\<close>\<close>

definition node_command :: "string \<Rightarrow> string option \<Rightarrow> string list" where
  "node_command target output_file =
     [''node'', ''main.js'', target, ''--deep'', ''--security'', ''--performance'']
       @ (if given output_file then [''--json'', ''--export'', the output_file] else [])"

text \<open>The second argument is \<^verbatim>\<open>EXTRACTED_JS_DIR\<close> as it is when the function runs.\<close>

definition run_static_analysis ::
  "string option \<Rightarrow> world \<Rightarrow> string directory option \<Rightarrow> bool \<times> event list" where
  "run_static_analysis output_file w extracted_js_dir =
     (case extracted_js_dir of
        None \<Rightarrow> (False, [Print Banner_step3, Print Error_extracted_dir_not_found])
      | Some d \<Rightarrow>
          let js_files = glob_star ''.js'' d in
          if js_files = [] then (False, [Print Banner_step3, Print Error_no_js_files])
          else
            let cmd = node_command EXTRACTED_JS_DIR output_file;
                started = [Print Banner_step3, Print (Found_js_files (length js_files)),
                           Print (Running cmd), Run_subprocess cmd]
            in if analyzer_exit w cmd = 0
               then (True, started @ [Print Analysis_complete]
                             @ (if given output_file then [Print (Report_saved (the output_file))]
                                else []))
               else (False, started @ [Print (Error_analysis_failed (analyzer_exit w cmd))]))"

text \<open>\<^verbatim>\<open>target_dir.glob("*.js")\<close> where the target may be a regular file.\<close>

definition glob_js_node :: "node \<Rightarrow> string directory" where
  "glob_js_node nd = (case nd of Regular_file \<Rightarrow> [] | Dir d \<Rightarrow> glob_star ''.js'' d)"

definition target_dir :: "string option \<Rightarrow> world \<Rightarrow> string directory option \<Rightarrow> node option" where
  "target_dir js_directory w extracted_js_dir =
     (if given js_directory then path_lookup w (the js_directory)
      else map_option Dir extracted_js_dir)"

definition run_static_analysis_only ::
  "string option \<Rightarrow> string option \<Rightarrow> world \<Rightarrow> string directory option \<Rightarrow> bool \<times> event list" where
  "run_static_analysis_only js_directory output_file w extracted_js_dir =
     (case target_dir js_directory w extracted_js_dir of
        None \<Rightarrow> (False, [Print Banner_analysis_only, Print Error_js_dir_not_found])
      | Some nd \<Rightarrow>
          let js_files = glob_js_node nd in
          if js_files = [] then (False, [Print Banner_analysis_only, Print Error_no_js_files_in])
          else
            let cmd = node_command
                        (absolute w (if given js_directory then the js_directory
                                     else EXTRACTED_JS_DIR))
                        output_file
            in (analyzer_exit w cmd = 0,
                [Print Banner_analysis_only, Print (Found_js_files (length js_files)),
                 Print (Running cmd), Run_subprocess cmd]))"

section \<open>Merge: \<^verbatim>\<open>convert_and_merge_outputs\<close>\<close>

definition merge_command :: "string list" where
  "merge_command = [''node'', ''run_pipeline.js'', ''--skip-crawl'']"

text \<open>Lines 365 to 370, on the parsed merged file.\<close>

definition show_summary :: "json \<Rightarrow> unit io" where
  "show_summary data =
     then_do (pure (py_get data ''summary'' (JObj []))) (\<lambda>summary.
     then_do (emit [Print Merged_output_created]) (\<lambda>_.
     then_do (pure (py_get summary ''total_calls_found'' (JInt 0))) (\<lambda>total.
     then_do (emit [Print (Total_calls_found total)]) (\<lambda>_.
     then_do (pure (py_get summary ''unique_calls'' (JInt 0))) (\<lambda>unique.
     then_do (emit [Print (Unique_calls unique)]) (\<lambda>_.
     then_do (pure (py_get summary ''sources'' (JObj []))) (\<lambda>sources.
     then_do (pure (py_get sources ''noizz25'' (JInt 0))) (\<lambda>noizz.
     then_do (emit [Print (From_noizz25 noizz)]) (\<lambda>_.
     then_do (pure (py_get summary ''sources'' (JObj []))) (\<lambda>sources.
     then_do (pure (py_get sources ''static_analysis'' (JInt 0))) (\<lambda>static.
     emit [Print (From_static_analysis static)])))))))))))"

definition convert_and_merge_outputs :: "world \<Rightarrow> unit io" where
  "convert_and_merge_outputs w =
     then_do (emit [Print Banner_step4, Run_subprocess merge_command]) (\<lambda>_.
     then_do (emit (if merge_exit w \<noteq> 0 then [Print (Warning_merge_issues (merge_stderr w))]
                    else [])) (\<lambda>_.
       case merged_file w of
         None \<Rightarrow> emit [Print Warning_merged_not_found]
       | Some opened \<Rightarrow> then_do (pure opened) show_summary))"

section \<open>The controller: \<^verbatim>\<open>main\<close>\<close>

text \<open>
  The command line, as the options it spells out. The parser of lines 248 to 279
  declares six independent options and no relation between them: two are flags
  (\<^verbatim>\<open>store_true\<close>), four take a value, a later occurrence of which replaces an earlier.
\<close>

datatype cli_option =
    Opt_url string | Opt_config string | Opt_skip_capture | Opt_analyze_only
  | Opt_js_dir string | Opt_output string

record args =
  url :: "string option"
  config :: "string option"
  skip_capture :: bool
  analyze_only :: bool
  js_dir :: "string option"
  output_opt :: "string option"

fun set_option :: "cli_option \<Rightarrow> args \<Rightarrow> args" where
  "set_option (Opt_url v) a = a\<lparr>url := Some v\<rparr>"
| "set_option (Opt_config v) a = a\<lparr>config := Some v\<rparr>"
| "set_option Opt_skip_capture a = a\<lparr>skip_capture := True\<rparr>"
| "set_option Opt_analyze_only a = a\<lparr>analyze_only := True\<rparr>"
| "set_option (Opt_js_dir v) a = a\<lparr>js_dir := Some v\<rparr>"
| "set_option (Opt_output v) a = a\<lparr>output_opt := Some v\<rparr>"

definition parse_args :: "cli_option list \<Rightarrow> args" where
  "parse_args opts =
     fold set_option opts
       \<lparr>url = None, config = None, skip_capture = False, analyze_only = False,
        js_dir = None, output_opt = None\<rparr>"

text \<open>
  Static analysis, merge and the closing lines, as both the skip-capture mode (lines 300
  to 309, then 313) and the full workflow (lines 329 to 340) run them. The result of
  the analysis is dropped; an exception of the merge step is not caught.
\<close>

definition analyse_and_merge :: "string option \<Rightarrow> world \<Rightarrow> string directory option \<Rightarrow> nat io" where
  "analyse_and_merge output_file w extracted_js_dir =
     then_do (returning (run_static_analysis output_file w extracted_js_dir)) (\<lambda>_.
     then_do (convert_and_merge_outputs w) (\<lambda>_.
     then_do (emit [Print Pipeline_complete]) (\<lambda>_.
     pure (Inr 0))))"

text \<open>
  \<^verbatim>\<open>main\<close> on a command line, an environment and the extraction directory it
  finds. The value is the argument of \<^verbatim>\<open>sys.exit\<close> (0 when \<^verbatim>\<open>main\<close> returns), or the
  exception that leaves it; the second component is the extraction directory afterwards.
\<close>

definition main ::
  "cli_option list \<Rightarrow> world \<Rightarrow> string directory option \<Rightarrow> nat io \<times> string directory option" where
  "main opts w extracted_js_dir =
     (let a = parse_args opts in
      if analyze_only a then
        (then_do (emit [Print Banner_main]) (\<lambda>_.
         then_do (returning (run_static_analysis_only (js_dir a) (output_opt a) w extracted_js_dir))
           (\<lambda>success. pure (Inr (if success then 0 else 1)))),
         extracted_js_dir)
      else if skip_capture a then
        (if js_files_json_dir w = None
         then (then_do (emit [Print Banner_main, Print Error_json_dir_not_found]) (\<lambda>_.
               pure (Inr 1)),
               extracted_js_dir)
         else
           let ex = extract_js_from_json_files (win32 w) (js_files_json_dir w)
                      extracted_js_dir;
               extracted_js_dir' = Some (extracted_dir (fst ex))
           in (then_do (emit (Print Banner_main # map Print (snd ex))) (\<lambda>_.
               if 0 < extracted_count (fst ex)
               then analyse_and_merge (output_opt a) w extracted_js_dir'
               else then_do (emit [Print No_js_extracted]) (\<lambda>_. pure (Inr 1))),
               extracted_js_dir'))
      else
        let captured = then_do (emit [Print Banner_main]) (\<lambda>_.
                         run_noizz2025 (config a) (url a) w)
        in case fst captured of
             Inl e \<Rightarrow> ((Inl e, snd captured), extracted_js_dir)
           | Inr ok \<Rightarrow>
               if \<not> ok
               then (then_do captured (\<lambda>_.
                     then_do (emit [Print Error_capture_failed]) (\<lambda>_. pure (Inr 1))),
                     extracted_js_dir)
               else
                 let ex = extract_js_from_json_files (win32 w) (js_files_json_dir w)
                      extracted_js_dir;
                     extracted_js_dir' = Some (extracted_dir (fst ex))
                 in (then_do captured (\<lambda>_.
                     then_do (emit (map Print (snd ex))) (\<lambda>_.
                     if extracted_count (fst ex) = 0
                     then then_do (emit [Print No_js_extracted]) (\<lambda>_. pure (Inr 1))
                     else analyse_and_merge (output_opt a) w extracted_js_dir')),
                     extracted_js_dir'))"

text \<open>
  The exit status of the process: the argument of \<^verbatim>\<open>sys.exit\<close>, and 1 when an
  exception reaches the top level.
\<close>

definition exit_status :: "nat io \<Rightarrow> nat" where
  "exit_status r = (case fst r of Inl e \<Rightarrow> 1 | Inr n \<Rightarrow> n)"

section \<open>Notions of the specification\<close>


text \<open>
  A mapping result can be reported when it is an object whose \<^verbatim>\<open>ui_endpoints\<close> and
  \<^verbatim>\<open>server_endpoints\<close>, where present, have a length.
\<close>

fun sized :: "json \<Rightarrow> bool" where
  "sized (JStr s) = True"
| "sized (JArr xs) = True"
| "sized (JObj kvs) = True"
| "sized _ = False"

definition well_formed_result :: "response \<Rightarrow> bool" where
  "well_formed_result r =
     (case response_json r of
        Inr (JObj kvs) \<Rightarrow>
          (case map_of kvs ''ui_endpoints'' of None \<Rightarrow> True | Some v \<Rightarrow> sized v) \<and>
          (case map_of kvs ''server_endpoints'' of None \<Rightarrow> True | Some v \<Rightarrow> sized v)
      | _ \<Rightarrow> False)"

text \<open>
  The effects of \<open>n\<close> health checks that all fail, from attempt \<open>i\<close>: each a request, a
  sleep of one second and a progress line.
\<close>

definition polling :: "nat \<Rightarrow> nat \<Rightarrow> event list" where
  "polling i n =
     concat (map (\<lambda>k. [Http_get_health, Sleep 1, Print (Waiting_for_server (k + 1) max_wait)])
                 [i..<i + n])"

definition polling_event :: "event \<Rightarrow> bool" where
  "polling_event ev =
     (case ev of Http_get_health \<Rightarrow> True | Sleep n \<Rightarrow> True | Print m \<Rightarrow> True | _ \<Rightarrow> False)"


section \<open>Example inputs\<close>

text \<open>
  The scenario of the specification: \<^verbatim>\<open>a.json\<close> with content, \<^verbatim>\<open>b.json\<close> with an error
  and no content; beside them a file that does not parse and a file that is not a
  \<^verbatim>\<open>.json\<close> file. The extraction directory holds a script of an earlier run and a
  file of another kind. A further record holds a script of two lines.
\<close>

definition example_a :: json_file where
  "example_a = Inr (JObj [(''content'', JStr ''console.log(1)'')])"

definition example_b :: json_file where
  "example_b = Inr (JObj [(''status'', JStr ''error''), (''error'', JStr ''timeout'')])"

definition example_src :: "json_file directory option" where
  "example_src =
     Some [(''a.json'', example_a), (''b.json'', example_b), (''c.json'', Inl JSONDecodeError),
           (''readme.txt'', Inl JSONDecodeError)]"

definition example_dst :: "string directory option" where
  "example_dst = Some [(''old.js'', ''stale()''), (''notes.txt'', ''keep me'')]"



text \<open>
  An environment in which everything works: the server answers the third health check,
  the mapping answers 200 with a result, both \<^verbatim>\<open>node\<close> tools exit with 0, and the merge
  tool leaves no merged file. The variants: a mapping that answers 201; a server that
  never becomes healthy; a merge tool that exits with 1 and leaves a file that does not
  parse.
\<close>

definition example_world :: world where
  "example_world =
     \<lparr>win32 = False,
      health = (\<lambda>i. if i < 2 then Inl TransportError else Inr 200),
      load_config = (\<lambda>p. if p = NOIZZ_CONFIG
                          then Inr (JObj [(''start_url'', JStr ''http://localhost:4200'')])
                          else Inl OSError),
      post_map = (\<lambda>payload. Inr \<lparr>status_code = 200, response_text = [],
                                  response_json = Inr (JObj [(''ui_endpoints'', JArr []),
                                                             (''js_files_count'', JInt 1)])\<rparr>),
      wait_expires = False,
      js_files_json_dir = example_src,
      path_lookup = (\<lambda>p. None),
      absolute = (\<lambda>p. p),
      analyzer_exit = (\<lambda>cmd. 0),
      merge_exit = 0,
      merge_stderr = [],
      merged_file = None\<rparr>"

definition example_created :: response where
  "example_created = \<lparr>status_code = 201, response_text = [], response_json = Inr (JObj [])\<rparr>"

definition example_payload :: json where
  "example_payload = JObj [(''config'', JObj [(''start_url'', JStr ''http://localhost:4200'')])]"

definition example_world_created :: world where
  "example_world_created = example_world\<lparr>post_map := \<lambda>payload. Inr example_created\<rparr>"

definition example_world_down :: world where
  "example_world_down =
     example_world\<lparr>health := \<lambda>i. if even i then Inl TransportError else Inr 503\<rparr>"

definition example_world_merge_failed :: world where
  "example_world_merge_failed =
     example_world\<lparr>merge_exit := 1, merge_stderr := ''boom'',
                   merged_file := Some (Inl JSONDecodeError)\<rparr>"

section \<open>Extraction: properties\<close>

subsection \<open>The clearing step and one iteration\<close>

















text \<open>The scenario of the specification, run.\<close>

lemma scenario:
  "fst (extract_js_from_json_files False example_src example_dst) =
     \<lparr>extracted_dir = [(''notes.txt'', ''keep me''), (''a.js'', ''console.log(1)'')],
      extracted_count = 1, failed_count = 2\<rparr>"
  by code_simp

subsection \<open>Records with usable content\<close>





subsection \<open>Records without usable content\<close>



subsection \<open>No stale output\<close>



subsection \<open>Files of other kinds\<close>



section \<open>Sequencing: properties\<close>

lemma then_do_emit: "then_do (emit evs) f = (fst (f ()), evs @ snd (f ()))"
  by (simp add: then_do_def emit_def)

lemma then_do_pure_Inr: "then_do (pure (Inr a)) f = f a"
  by (simp add: then_do_def pure_def)

lemma then_do_pure_Inl: "then_do (pure (Inl e)) f = (Inl e, [])"
  by (simp add: then_do_def pure_def)

lemma then_do_returning: "then_do (returning p) f = (fst (f (fst p)), snd p @ snd (f (fst p)))"
  by (simp add: then_do_def returning_def)

lemma fst_pure: "fst (pure r) = r" and snd_pure: "snd (pure r) = []"
  by (simp_all add: pure_def)

lemma fst_emit: "fst (emit evs) = Inr ()" and snd_emit: "snd (emit evs) = evs"
  by (simp_all add: emit_def)

lemma then_do_Inr: "then_do (Inr a, evs) f = (fst (f a), evs @ snd (f a))"
  by (simp add: then_do_def)

lemma then_do_Inl: "then_do (Inl e, evs) f = (Inl e, evs)"
  by (simp add: then_do_def)

lemmas io_simps = then_do_emit then_do_pure_Inr then_do_pure_Inl then_do_returning
  then_do_Inr then_do_Inl fst_pure snd_pure fst_emit snd_emit

lemma fst_then_do: "fst (then_do m f) = (case fst m of Inl e \<Rightarrow> Inl e | Inr a \<Rightarrow> fst (f a))"
  by (simp add: then_do_def split: sum.splits)

lemma snd_then_do:
  "snd (then_do m f) = (case fst m of Inl e \<Rightarrow> snd m | Inr a \<Rightarrow> snd m @ snd (f a))"
  by (simp add: then_do_def split: sum.splits)

lemma fst_returning: "fst (returning p) = Inr (fst p)"
  and snd_returning: "snd (returning p) = snd p"
  by (simp_all add: returning_def)

lemmas io_sel = fst_then_do snd_then_do fst_returning snd_returning
  fst_pure snd_pure fst_emit snd_emit

section \<open>Capture: properties\<close>

subsection \<open>The polling loop\<close>

lemma wait_for_server_never:
  assumes "\<forall>k. i \<le> k \<and> k < i + n \<longrightarrow> health w k \<noteq> Inr 200"
  shows "wait_for_server w i n = (False, polling i n)"
  using assms
proof (induction n arbitrary: i)
  case 0
  then show ?case by (simp add: polling_def)
next
  case (Suc n)
  have h: "health w i \<noteq> Inr 200" using Suc.prems by simp
  have "wait_for_server w (Suc i) n = (False, polling (Suc i) n)"
    using Suc.prems by (intro Suc.IH) simp
  moreover have "[i..<i + Suc n] = i # [Suc i..<Suc i + n]"
    by (simp add: upt_conv_Cons)
  ultimately show ?case using h
    by (simp add: polling_def del: upt_Suc)
qed

lemma wait_for_server_events:
  "\<forall>ev \<in> set (snd (wait_for_server w i n)). polling_event ev"
  by (induction n arbitrary: i) (auto simp: polling_event_def)

lemma wait_for_server_ready_iff:
  "fst (wait_for_server w i n) \<longleftrightarrow> (\<exists>k. i \<le> k \<and> k < i + n \<and> health w k = Inr 200)"
proof (induction n arbitrary: i)
  case 0
  then show ?case by simp
next
  case (Suc n)
  show ?case
  proof (cases "health w i = Inr 200")
    case True
    then show ?thesis by auto
  next
    case False
    have "(\<exists>k. Suc i \<le> k \<and> k < Suc i + n \<and> health w k = Inr 200)
        \<longleftrightarrow> (\<exists>k. i \<le> k \<and> k < i + Suc n \<and> health w k = Inr 200)"
      using False by (metis Suc_leD Suc_leI add_Suc add_Suc_right le_neq_implies_less)
    with False Suc.IH [of "Suc i"] show ?thesis by simp
  qed
qed

lemma polling_events:
  "ev \<in> set (polling i n) \<Longrightarrow> polling_event ev"
  by (auto simp: polling_def polling_event_def split: if_splits)

subsection \<open>The two ways out of \<^verbatim>\<open>run_noizz2025\<close>\<close>

lemma run_noizz2025_not_ready:
  assumes "\<not> fst (wait_for_server w 0 max_wait)"
  shows "run_noizz2025 cfg start w =
     (Inr False, [Print Banner_step1, Print Starting_server, Popen_server]
        @ snd (wait_for_server w 0 max_wait) @ [Print Error_server_failed, Terminate])"
  using assms by (simp add: run_noizz2025_def io_simps)

lemma run_noizz2025_ready:
  assumes "fst (wait_for_server w 0 max_wait)"
  shows "run_noizz2025 cfg start w =
     ((if wait_expires w then Inl TimeoutExpired else Inr (fst (mapping_handled cfg start w))),
      [Print Banner_step1, Print Starting_server, Popen_server]
        @ snd (wait_for_server w 0 max_wait) @ snd (mapping_handled cfg start w)
        @ [Print Stopping_server, if win32 w then Taskkill else Terminate, Wait 5])"
  using assms by (cases "wait_expires w") (simp_all add: run_noizz2025_def stop_server_def io_simps)

subsection \<open>The mapping request\<close>

lemma report_mapping_Inr:
  "fst (report_mapping r) = Inr b \<longleftrightarrow> b \<and> well_formed_result r"
proof (cases "response_json r")
  case (Inl e)
  then show ?thesis by (simp add: report_mapping_def well_formed_result_def io_simps)
next
  case (Inr result)
  show ?thesis
  proof (cases result)
    case (JObj kvs)
    have len: "(\<exists>n. py_len v = Inr n) \<longleftrightarrow> sized v" for v
      by (cases v) simp_all
    show ?thesis
    proof (cases "py_len (case map_of kvs ''ui_endpoints'' of None \<Rightarrow> JArr [] | Some v \<Rightarrow> v)")
      case ui: (Inl e)
      with len [of "case map_of kvs ''ui_endpoints'' of None \<Rightarrow> JArr [] | Some v \<Rightarrow> v"]
      have "\<not> (case map_of kvs ''ui_endpoints'' of None \<Rightarrow> True | Some v \<Rightarrow> sized v)"
        by (auto split: option.splits)
      with ui Inr JObj show ?thesis
        by (simp add: report_mapping_def well_formed_result_def io_simps)
    next
      case ui: (Inr n)
      with len [of "case map_of kvs ''ui_endpoints'' of None \<Rightarrow> JArr [] | Some v \<Rightarrow> v"]
      have u: "(case map_of kvs ''ui_endpoints'' of None \<Rightarrow> True | Some v \<Rightarrow> sized v)"
        by (auto split: option.splits)
      show ?thesis
      proof (cases "py_len (case map_of kvs ''server_endpoints'' of None \<Rightarrow> JArr [] | Some v \<Rightarrow> v)")
        case srv: (Inl e)
        with len [of "case map_of kvs ''server_endpoints'' of None \<Rightarrow> JArr [] | Some v \<Rightarrow> v"]
        have "\<not> (case map_of kvs ''server_endpoints'' of None \<Rightarrow> True | Some v \<Rightarrow> sized v)"
          by (auto split: option.splits)
        with ui srv Inr JObj show ?thesis
          by (simp add: report_mapping_def well_formed_result_def io_simps)
      next
        case srv: (Inr m)
        with len [of "case map_of kvs ''server_endpoints'' of None \<Rightarrow> JArr [] | Some v \<Rightarrow> v"]
        have "(case map_of kvs ''server_endpoints'' of None \<Rightarrow> True | Some v \<Rightarrow> sized v)"
          by (auto split: option.splits)
        with u ui srv Inr JObj show ?thesis
          by (auto simp add: report_mapping_def well_formed_result_def io_simps)
      qed
    qed
  qed (simp_all add: report_mapping_def well_formed_result_def io_simps Inr)
qed

lemma mapping_try_True:
  "fst (mapping_try cfg start w) = Inr True \<longleftrightarrow>
     (\<exists>kvs r. prepare_config cfg start w = Inr (JObj kvs) \<and>
        post_map w (JObj [(''config'', JObj kvs)]) = Inr r \<and>
        status_code r = 200 \<and> well_formed_result r)"
proof (cases "prepare_config cfg start w")
  case (Inl e)
  then show ?thesis by (simp add: mapping_try_def io_simps)
next
  case (Inr conf)
  show ?thesis
  proof (cases conf)
    case (JObj kvs)
    show ?thesis
    proof (cases "post_map w (JObj [(''config'', JObj kvs)])")
      case (Inl e)
      with Inr JObj show ?thesis by (simp add: mapping_try_def io_simps)
    next
      case r: (Inr r)
      with Inr JObj show ?thesis
        by (simp add: mapping_try_def io_simps report_mapping_Inr)
    qed
  qed (simp_all add: mapping_try_def io_simps Inr)
qed

lemma mapping_handled_True:
  "fst (mapping_handled cfg start w) \<longleftrightarrow>
     (\<exists>kvs r. prepare_config cfg start w = Inr (JObj kvs) \<and>
        post_map w (JObj [(''config'', JObj kvs)]) = Inr r \<and>
        status_code r = 200 \<and> well_formed_result r)"
proof -
  have "fst (mapping_handled cfg start w) \<longleftrightarrow> fst (mapping_try cfg start w) = Inr True"
    by (cases "fst (mapping_try cfg start w)") (simp_all add: mapping_handled_def)
  then show ?thesis by (simp add: mapping_try_True)
qed

subsection \<open>When the capture succeeds\<close>

text \<open>
  Claim C3, as the code has it. \<^verbatim>\<open>run_noizz2025\<close> returns \<^verbatim>\<open>True\<close> exactly when a health
  check within the budget answered 200, the configuration loaded as an object, the
  \<^verbatim>\<open>POST\<close> to \<^verbatim>\<open>/map\<close> was answered with status exactly 200 and a result that can be
  reported, and the final wait for the server process did not time out. Every other
  status, the other 2xx codes included, and every exception of the request is a failure.
\<close>

theorem run_noizz2025_success_iff:
  "fst (run_noizz2025 cfg start w) = Inr True \<longleftrightarrow>
     (\<exists>i<max_wait. health w i = Inr 200) \<and>
     (\<exists>kvs r. prepare_config cfg start w = Inr (JObj kvs) \<and>
        post_map w (JObj [(''config'', JObj kvs)]) = Inr r \<and>
        status_code r = 200 \<and> well_formed_result r) \<and>
     \<not> wait_expires w"
proof (cases "fst (wait_for_server w 0 max_wait)")
  case True
  then have "\<exists>i<max_wait. health w i = Inr 200"
    by (simp add: wait_for_server_ready_iff)
  then show ?thesis
    by (simp add: run_noizz2025_ready [OF True] mapping_handled_True)
next
  case False
  then have "\<not> (\<exists>i<max_wait. health w i = Inr 200)"
    by (simp add: wait_for_server_ready_iff)
  then show ?thesis
    by (simp add: run_noizz2025_not_ready [OF False])
qed

theorem run_noizz2025_success_iff_witness:
  "fst (run_noizz2025 None None example_world) = Inr True"
proof -
  have a: "\<exists>i<max_wait. health example_world i = Inr 200"
    by (rule exI [of _ 2]) (simp add: example_world_def max_wait_def)
  have b: "\<exists>kvs r. prepare_config None None example_world = Inr (JObj kvs) \<and>
        post_map example_world (JObj [(''config'', JObj kvs)]) = Inr r \<and>
        status_code r = 200 \<and> well_formed_result r"
    by (simp add: prepare_config_def example_world_def given_def well_formed_result_def)
  have c: "\<not> wait_expires example_world"
    by (simp add: example_world_def)
  from a b c run_noizz2025_success_iff [of None None example_world] show ?thesis by blast
qed

text \<open>
  The claim as the specification words it, that any 2xx response to the mapping request
  yields success, fails for a response 201: the request is sent, the answer is in the
  2xx range, and \<^verbatim>\<open>run_noizz2025\<close> returns \<^verbatim>\<open>False\<close>.
\<close>

theorem run_noizz2025_created_counterexample:
  "post_map example_world_created example_payload = Inr example_created \<and>
   200 \<le> status_code example_created \<and> status_code example_created < 300 \<and>
   Http_post_map example_payload \<in> set (snd (run_noizz2025 None None example_world_created)) \<and>
   fst (run_noizz2025 None None example_world_created) = Inr False"
  by code_simp

subsection \<open>The server process is always asked to stop\<close>

text \<open>
  Claim C4. On every way out of \<^verbatim>\<open>run_noizz2025\<close>, whatever the health checks, the
  configuration, the mapping request and the platform do, the capture server was started
  and the effects of the call end with a termination request to it: either
  \<^verbatim>\<open>server_process.terminate()\<close> as the last effect (the server never became healthy), or
  the termination request of the \<^verbatim>\<open>finally\<close> block (\<^verbatim>\<open>taskkill\<close> on Windows,
  \<^verbatim>\<open>terminate()\<close> elsewhere) followed only by the wait of five seconds.
\<close>

theorem run_noizz2025_terminates_server:
  "\<exists>pre. Popen_server \<in> set pre \<and>
     (snd (run_noizz2025 cfg start w) = pre @ [Terminate] \<or>
      snd (run_noizz2025 cfg start w) = pre @ [if win32 w then Taskkill else Terminate, Wait 5])"
proof (cases "fst (wait_for_server w 0 max_wait)")
  case True
  show ?thesis
    unfolding run_noizz2025_ready [OF True]
    by (rule exI [of _ "[Print Banner_step1, Print Starting_server, Popen_server]
        @ snd (wait_for_server w 0 max_wait) @ snd (mapping_handled cfg start w)
        @ [Print Stopping_server]"]) simp
next
  case False
  show ?thesis
    unfolding run_noizz2025_not_ready [OF False]
    by (rule exI [of _ "[Print Banner_step1, Print Starting_server, Popen_server]
        @ snd (wait_for_server w 0 max_wait) @ [Print Error_server_failed]"]) simp
qed

theorem run_noizz2025_terminates_server_witness:
  "snd (run_noizz2025 None None example_world_down) =
     ([Print Banner_step1, Print Starting_server, Popen_server] @ polling 0 max_wait
        @ [Print Error_server_failed]) @ [Terminate]
   \<and> (\<exists>pre. Popen_server \<in> set pre \<and>
        snd (run_noizz2025 None None example_world_created) = pre @ [Terminate, Wait 5])"
proof -
  have n: "\<forall>k. 0 \<le> k \<and> k < 0 + max_wait \<longrightarrow> health example_world_down k \<noteq> Inr 200"
    by (simp add: example_world_down_def)
  have d: "snd (run_noizz2025 None None example_world_down) =
     ([Print Banner_step1, Print Starting_server, Popen_server] @ polling 0 max_wait
        @ [Print Error_server_failed]) @ [Terminate]"
    using wait_for_server_never [OF n]
    by (simp add: run_noizz2025_not_ready)
  have l: "last (snd (run_noizz2025 None None example_world_created)) = Wait 5"
    by code_simp
  have w: "\<not> win32 example_world_created"
    by (simp add: example_world_created_def example_world_def)
  from run_noizz2025_terminates_server [of None None example_world_created] obtain pre where
    pre: "Popen_server \<in> set pre"
      "snd (run_noizz2025 None None example_world_created) = pre @ [Terminate] \<or>
       snd (run_noizz2025 None None example_world_created) =
         pre @ [if win32 example_world_created then Taskkill else Terminate, Wait 5]"
    by blast
  from pre(2) l w have "snd (run_noizz2025 None None example_world_created) = pre @ [Terminate, Wait 5]"
    by auto
  with pre(1) d show ?thesis by blast
qed

subsection \<open>A server that never becomes healthy\<close>

lemma fold_set_option_analyze_only:
  "analyze_only (fold set_option opts a) \<longleftrightarrow> analyze_only a \<or> Opt_analyze_only \<in> set opts"
proof (induction opts arbitrary: a)
  case Nil
  then show ?case by simp
next
  case (Cons x xs)
  then show ?case by (cases x) auto
qed

lemma fold_set_option_skip_capture:
  "skip_capture (fold set_option opts a) \<longleftrightarrow> skip_capture a \<or> Opt_skip_capture \<in> set opts"
proof (induction opts arbitrary: a)
  case Nil
  then show ?case by simp
next
  case (Cons x xs)
  then show ?case by (cases x) auto
qed

lemma analyze_only_parse_args: "analyze_only (parse_args opts) \<longleftrightarrow> Opt_analyze_only \<in> set opts"
  by (simp add: parse_args_def fold_set_option_analyze_only)

lemma skip_capture_parse_args: "skip_capture (parse_args opts) \<longleftrightarrow> Opt_skip_capture \<in> set opts"
  by (simp add: parse_args_def fold_set_option_skip_capture)

text \<open>
  Claim C5. In the full workflow (neither \<^verbatim>\<open>--analyze-only\<close> nor \<^verbatim>\<open>--skip-capture\<close>), when
  none of the 30 health checks answers 200, \<^verbatim>\<open>run_noizz2025\<close> makes exactly the 30
  attempts, each followed by a sleep of one second, asks the server process to terminate
  and returns \<^verbatim>\<open>False\<close>; \<^verbatim>\<open>main\<close> then exits with status 1. No mapping request is sent,
  extraction does not run (its banner is not printed and the extraction directory is as
  before).
\<close>

theorem health_never_ready_aborts:
  assumes "Opt_analyze_only \<notin> set opts" and "Opt_skip_capture \<notin> set opts"
    and "\<forall>i<max_wait. health w i \<noteq> Inr 200"
  shows "run_noizz2025 (config (parse_args opts)) (url (parse_args opts)) w =
           (Inr False,
            [Print Banner_step1, Print Starting_server, Popen_server] @ polling 0 max_wait
              @ [Print Error_server_failed, Terminate])
       \<and> main opts w x =
           ((Inr 1,
             [Print Banner_main, Print Banner_step1, Print Starting_server, Popen_server]
               @ polling 0 max_wait
               @ [Print Error_server_failed, Terminate, Print Error_capture_failed]), x)
       \<and> exit_status (fst (main opts w x)) = 1
       \<and> (\<forall>payload. Http_post_map payload \<notin> set (snd (fst (main opts w x))))
       \<and> Terminate \<in> set (snd (fst (main opts w x)))
       \<and> Print Banner_step2 \<notin> set (snd (fst (main opts w x)))"
proof -
  let ?a = "parse_args opts"
  have never: "wait_for_server w 0 max_wait = (False, polling 0 max_wait)"
    using assms(3) by (intro wait_for_server_never) simp
  then have run: "run_noizz2025 (config ?a) (url ?a) w =
           (Inr False,
            [Print Banner_step1, Print Starting_server, Popen_server] @ polling 0 max_wait
              @ [Print Error_server_failed, Terminate])"
    by (simp add: run_noizz2025_not_ready)
  have mode: "\<not> analyze_only ?a" "\<not> skip_capture ?a"
    using assms(1,2) by (simp_all add: analyze_only_parse_args skip_capture_parse_args)
  have m: "main opts w x =
           ((Inr 1,
             [Print Banner_main, Print Banner_step1, Print Starting_server, Popen_server]
               @ polling 0 max_wait
               @ [Print Error_server_failed, Terminate, Print Error_capture_failed]), x)"
    using mode by (simp add: main_def Let_def run io_simps)
  have p: "Http_post_map payload \<notin> set (polling 0 max_wait)" for payload
    using polling_events [of "Http_post_map payload" 0 max_wait]
    by (auto simp: polling_event_def)
  have q: "Print Banner_step2 \<notin> set (polling 0 max_wait)"
    by (auto simp: polling_def)
  show ?thesis
    unfolding m using run p q by (simp add: exit_status_def)
qed

theorem health_never_ready_aborts_witness:
  "Opt_analyze_only \<notin> set [Opt_url ''http://localhost:4200''] \<and>
   Opt_skip_capture \<notin> set [Opt_url ''http://localhost:4200''] \<and>
   exit_status (fst (main [Opt_url ''http://localhost:4200''] example_world_down example_dst)) = 1 \<and>
   snd (main [Opt_url ''http://localhost:4200''] example_world_down example_dst) = example_dst \<and>
   length (filter (\<lambda>ev. ev = Http_get_health)
     (snd (fst (main [Opt_url ''http://localhost:4200''] example_world_down example_dst)))) = 30"
proof -
  have h: "\<forall>i<max_wait. health example_world_down i \<noteq> Inr 200"
    by (simp add: example_world_down_def)
  have a: "Opt_analyze_only \<notin> set [Opt_url ''http://localhost:4200'']"
    and s: "Opt_skip_capture \<notin> set [Opt_url ''http://localhost:4200'']"
    by simp_all
  have len: "length (filter (\<lambda>ev. ev = Http_get_health) (polling i n)) = n" for i n
    by (induction n arbitrary: i) (simp_all add: polling_def)
  note c = health_never_ready_aborts [OF a s h, of example_dst]
  from c have e: "exit_status (fst (main [Opt_url ''http://localhost:4200''] example_world_down example_dst)) = 1"
    by blast
  from c have m: "main [Opt_url ''http://localhost:4200''] example_world_down example_dst =
           ((Inr 1,
             [Print Banner_main, Print Banner_step1, Print Starting_server, Popen_server]
               @ polling 0 max_wait
               @ [Print Error_server_failed, Terminate, Print Error_capture_failed]), example_dst)"
    by blast
  have "length (filter (\<lambda>ev. ev = Http_get_health)
     (snd (fst (main [Opt_url ''http://localhost:4200''] example_world_down example_dst)))) = 30"
    unfolding m by (simp add: len max_wait_def)
  moreover have "snd (main [Opt_url ''http://localhost:4200''] example_world_down example_dst) = example_dst"
    unfolding m by simp
  ultimately show ?thesis using a s h e by blast
qed

section \<open>Static analysis: properties\<close>



section \<open>Merge: properties\<close>

text \<open>
  The return code of the merge tool decides one warning line and nothing else; with no
  merged file afterwards, the step returns and the full workflow exits with status 0.
\<close>

lemma convert_and_merge_outputs_absent:
  assumes "merged_file w = None"
  shows "convert_and_merge_outputs w =
     (Inr (), [Print Banner_step4, Run_subprocess merge_command]
        @ (if merge_exit w \<noteq> 0 then [Print (Warning_merge_issues (merge_stderr w))] else [])
        @ [Print Warning_merged_not_found])"
  using assms by (simp add: convert_and_merge_outputs_def io_simps)

lemma convert_and_merge_outputs_exit_irrelevant:
  "fst (convert_and_merge_outputs (w\<lparr>merge_exit := n\<rparr>)) = fst (convert_and_merge_outputs w)"
  by (simp add: convert_and_merge_outputs_def io_simps fst_then_do split: option.splits)

lemma main_full_pipeline:
  assumes "Opt_analyze_only \<notin> set opts" and "Opt_skip_capture \<notin> set opts"
    and "fst (run_noizz2025 (config (parse_args opts)) (url (parse_args opts)) w) = Inr True"
    and "0 < extracted_count (fst (extract_js_from_json_files (win32 w) (js_files_json_dir w) x))"
  shows "fst (fst (main opts w x)) =
           (case fst (convert_and_merge_outputs w) of Inl e \<Rightarrow> Inl e | Inr u \<Rightarrow> Inr 0)"
    and "set (snd (convert_and_merge_outputs w)) \<subseteq> set (snd (fst (main opts w x)))"
proof -
  let ?a = "parse_args opts"
  have mode: "\<not> analyze_only ?a" "\<not> skip_capture ?a"
    using assms(1,2) by (simp_all add: analyze_only_parse_args skip_capture_parse_args)
  have m: "fst (main opts w x) =
     then_do (then_do (emit [Print Banner_main]) (\<lambda>_. run_noizz2025 (config ?a) (url ?a) w)) (\<lambda>_.
     then_do (emit (map Print (snd (extract_js_from_json_files (win32 w) (js_files_json_dir w) x)))) (\<lambda>_.
       analyse_and_merge (output_opt ?a) w
         (Some (extracted_dir (fst (extract_js_from_json_files (win32 w) (js_files_json_dir w) x))))))"
    using mode assms(3,4) by (simp add: main_def Let_def io_sel)
  show "fst (fst (main opts w x)) =
           (case fst (convert_and_merge_outputs w) of Inl e \<Rightarrow> Inl e | Inr u \<Rightarrow> Inr 0)"
    unfolding m using assms(3)
    by (simp add: io_sel analyse_and_merge_def split: sum.splits)
  show "set (snd (convert_and_merge_outputs w)) \<subseteq> set (snd (fst (main opts w x)))"
    unfolding m using assms(3)
    by (auto simp add: io_sel analyse_and_merge_def split: sum.splits)
qed

lemma merge_exit_advisory_when_output_absent:
  assumes "Opt_analyze_only \<notin> set opts" and "Opt_skip_capture \<notin> set opts"
    and "fst (run_noizz2025 (config (parse_args opts)) (url (parse_args opts)) w) = Inr True"
    and "0 < extracted_count (fst (extract_js_from_json_files (win32 w) (js_files_json_dir w) x))"
    and "merge_exit w \<noteq> 0" and "merged_file w = None"
  shows "exit_status (fst (main opts w x)) = 0"
    and "Print (Warning_merge_issues (merge_stderr w)) \<in> set (snd (fst (main opts w x)))"
  using main_full_pipeline [OF assms(1-4)] assms(5)
  by (auto simp: convert_and_merge_outputs_absent [OF assms(6)] exit_status_def)

text \<open>
  Claim C8 does not hold of the code. Capture, extraction and analysis succeed; the merge
  tool exits with 1 and leaves a merged file that does not parse. The warning is printed,
  and then \<^verbatim>\<open>json.load\<close> on the merged file raises inside \<^verbatim>\<open>convert_and_merge_outputs\<close>,
  where nothing catches it: the exception leaves \<^verbatim>\<open>main\<close> and the process exits with
  status 1.
\<close>

theorem merge_unreadable_output_fatal:
  "fst (run_noizz2025 None None example_world_merge_failed) = Inr True \<and>
   extracted_count (fst (extract_js_from_json_files (win32 example_world_merge_failed)
      (js_files_json_dir example_world_merge_failed) example_dst)) = 1 \<and>
   fst (run_static_analysis None example_world_merge_failed
      (Some (extracted_dir (fst (extract_js_from_json_files (win32 example_world_merge_failed)
         (js_files_json_dir example_world_merge_failed) example_dst))))) \<and>
   merge_exit example_world_merge_failed \<noteq> 0 \<and>
   Print (Warning_merge_issues ''boom'')
     \<in> set (snd (convert_and_merge_outputs example_world_merge_failed)) \<and>
   fst (convert_and_merge_outputs example_world_merge_failed) = Inl JSONDecodeError \<and>
   fst (fst (main [] example_world_merge_failed example_dst)) = Inl JSONDecodeError \<and>
   exit_status (fst (main [] example_world_merge_failed example_dst)) = 1"
  by code_simp

section \<open>The controller: properties\<close>










end
